theory Spec2Isabelle
  imports Main
begin

text \<open>
  A model of \<^verbatim>\<open>KubernetesObjectHelper\<close> (\<^verbatim>\<open>openshift/helper/__init__.py\<close>): the deep
  comparator \<^verbatim>\<open>objects_match\<close>, the version marker of model names, the sanitizer
  \<^verbatim>\<open>__remove_creation_timestamps\<close> and the lifecycle operations \<^verbatim>\<open>get_object\<close>,
  \<^verbatim>\<open>create_object\<close>, \<^verbatim>\<open>patch_object\<close>, \<^verbatim>\<open>delete_object\<close> and \<^verbatim>\<open>update_object\<close>.
  Every function of the helper is a function here, with the same name where possible;
  an exception is a value \<open>Inl e\<close>, a normal return a value \<open>Inr v\<close>. Line numbers
  refer to that file.
\<close>

section \<open>Python values and the interpreter\<close>

text \<open>
  The helper in \<^verbatim>\<open>openshift/helper/__init__.py\<close> runs on both Python 2 and Python 3
  (it imports from \<^verbatim>\<open>__future__\<close> and tests \<^verbatim>\<open>'__cmp__' in dir(item_b)\<close>). The two
  interpreters differ where the code divides integers and where it looks for
  \<^verbatim>\<open>__cmp__\<close>, so the interpreter is a parameter of the model.
\<close>

datatype interp = Py2 | Py3

text \<open>
  Modelled from the spec: \<open>OpenShiftException\<close>, the helper's own exception class, whose
  module \<^verbatim>\<open>openshift/helper/exceptions.py\<close> is not among the sources. It is the spec's
  "ApiRequestError{status, message}": a message, and the status when the helper passes
  one (\<^verbatim>\<open>OpenShiftException(msg, status=exc.status)\<close>). The other constructors are the
  built-in exceptions that the modelled operations can raise.
\<close>

datatype py_error =
    AttributeError
  | TypeError
  | KeyError
  | IndexError
  | NotImplementedError
  | OpenShiftException string "int option"

text \<open>
  The plain data that \<^verbatim>\<open>to_dict()\<close> of a generated model returns: \<^verbatim>\<open>None\<close>, booleans,
  integers, strings, lists and dictionaries with string keys. A dictionary is an
  association list in iteration order; Python keeps its keys distinct (\<open>wf_val\<close> below).
  Floats are left out: a NaN is not equal to itself and is outside this model.
\<close>

datatype pyval =
    PNone
  | PBool bool
  | PInt int
  | PStr string
  | PList "pyval list"
  | PDict "(string \<times> pyval) list"

text \<open>
  Python's \<^verbatim>\<open>==\<close> on these values: \<^verbatim>\<open>bool\<close> is a subtype of \<^verbatim>\<open>int\<close>
  (\<^verbatim>\<open>True == 1\<close>), lists are equal elementwise, dictionaries when they have the same
  number of keys and every key of the left one is bound to an equal value on the right.
  Values of different kinds are unequal; no comparison raises.
\<close>

fun py_eq :: "pyval \<Rightarrow> pyval \<Rightarrow> bool"
  and py_eq_list :: "pyval list \<Rightarrow> pyval list \<Rightarrow> bool"
  and py_eq_items :: "(string \<times> pyval) list \<Rightarrow> (string \<times> pyval) list \<Rightarrow> bool"
where
  "py_eq PNone PNone = True"
| "py_eq (PBool a) (PBool b) = (a = b)"
| "py_eq (PBool a) (PInt j) = ((if a then 1 else 0) = j)"
| "py_eq (PInt i) (PBool b) = (i = (if b then 1 else 0))"
| "py_eq (PInt i) (PInt j) = (i = j)"
| "py_eq (PStr s) (PStr t) = (s = t)"
| "py_eq (PList xs) (PList ys) = py_eq_list xs ys"
| "py_eq (PDict a) (PDict b) = (length a = length b \<and> py_eq_items a b)"
| "py_eq _ _ = False"
| "py_eq_list [] [] = True"
| "py_eq_list (x # xs) (y # ys) = (py_eq x y \<and> py_eq_list xs ys)"
| "py_eq_list _ _ = False"
| "py_eq_items [] b = True"
| "py_eq_items ((k, v) # a) b =
     ((case map_of b k of None \<Rightarrow> False | Some w \<Rightarrow> py_eq v w) \<and> py_eq_items a b)"

text \<open>Truth value testing (\<^verbatim>\<open>not x\<close>): \<^verbatim>\<open>None\<close>, \<^verbatim>\<open>False\<close>, zero and empty containers are false.\<close>

fun truthy :: "pyval \<Rightarrow> bool" where
  "truthy PNone = False"
| "truthy (PBool b) = b"
| "truthy (PInt i) = (i \<noteq> 0)"
| "truthy (PStr s) = (s \<noteq> [])"
| "truthy (PList xs) = (xs \<noteq> [])"
| "truthy (PDict d) = (d \<noteq> [])"

text \<open>\<^verbatim>\<open>type(x).__name__\<close>.\<close>

fun type_name :: "pyval \<Rightarrow> string" where
  "type_name PNone = ''NoneType''"
| "type_name (PBool b) = ''bool''"
| "type_name (PInt i) = ''int''"
| "type_name (PStr s) = ''str''"
| "type_name (PList xs) = ''list''"
| "type_name (PDict d) = ''dict''"

text \<open>Lists and dictionaries are unhashable: \<^verbatim>\<open>set([...])\<close> raises \<^verbatim>\<open>TypeError\<close> on them.\<close>

fun hashable :: "pyval \<Rightarrow> bool" where
  "hashable (PList xs) = False"
| "hashable (PDict d) = False"
| "hashable _ = True"

text \<open>
  Iteration (\<^verbatim>\<open>for x in v\<close>, \<^verbatim>\<open>set(v)\<close>): a list yields its elements, a string its
  characters, a dictionary its keys; anything else is not iterable.
\<close>

fun py_iter :: "pyval \<Rightarrow> py_error + pyval list" where
  "py_iter (PList xs) = Inr xs"
| "py_iter (PStr s) = Inr (map (\<lambda>c. PStr [c]) s)"
| "py_iter (PDict d) = Inr (map (\<lambda>kv. PStr (fst kv)) d)"
| "py_iter _ = Inl TypeError"

text \<open>
  \<^verbatim>\<open>v[0]\<close>: the first element of a list or string; on a dictionary (whose keys are
  strings) a \<^verbatim>\<open>KeyError\<close>; on any other value a \<^verbatim>\<open>TypeError\<close>.
\<close>

fun first_item :: "pyval \<Rightarrow> py_error + pyval" where
  "first_item (PList []) = Inl IndexError"
| "first_item (PList (x # xs)) = Inr x"
| "first_item (PStr []) = Inl IndexError"
| "first_item (PStr (c # s)) = Inr (PStr [c])"
| "first_item (PDict d) = Inl KeyError"
| "first_item _ = Inl TypeError"

text \<open>\<^verbatim>\<open>set(v)\<close>, kept as the list of its elements, and equality of two such sets.\<close>

definition py_set :: "pyval \<Rightarrow> py_error + pyval list" where
  "py_set v =
     (case py_iter v of
        Inl e \<Rightarrow> Inl e
      | Inr xs \<Rightarrow> if list_all hashable xs then Inr xs else Inl TypeError)"

definition set_eq :: "pyval list \<Rightarrow> pyval list \<Rightarrow> bool" where
  "set_eq xs ys =
     (list_all (\<lambda>x. list_ex (py_eq x) ys) xs \<and> list_all (\<lambda>y. list_ex (py_eq y) xs) ys)"

text \<open>
  \<^verbatim>\<open>'__cmp__' in dir(v)\<close>: never on Python 3; on Python 2 for dictionaries and for
  integers (booleans included), not for strings, lists or \<^verbatim>\<open>None\<close>.
\<close>

fun has_cmp :: "interp \<Rightarrow> pyval \<Rightarrow> bool" where
  "has_cmp Py2 (PDict d) = True"
| "has_cmp Py2 (PInt i) = True"
| "has_cmp Py2 (PBool b) = True"
| "has_cmp _ _ = False"

text \<open>\<^verbatim>\<open>v.items()\<close>: only a dictionary has the attribute.\<close>

fun items :: "pyval \<Rightarrow> py_error + (string \<times> pyval) list" where
  "items (PDict d) = Inr d"
| "items _ = Inl AttributeError"

text \<open>\<^verbatim>\<open>s.startswith(p)\<close> and the substring test \<^verbatim>\<open>k in s\<close>.\<close>

definition startswith :: "string \<Rightarrow> string \<Rightarrow> bool" where
  "startswith s p = (take (length p) s = p)"

fun str_contains :: "string \<Rightarrow> string \<Rightarrow> bool" where
  "str_contains [] k = (k = [])"
| "str_contains (c # s) k = (startswith (c # s) k \<or> str_contains s k)"

text \<open>
  \<^verbatim>\<open>key in v\<close> and \<^verbatim>\<open>v[key]\<close> for a string key: membership is defined on dictionaries
  (keys), lists (elements) and strings (substrings); indexing by a string only on
  dictionaries.
\<close>

fun contains :: "pyval \<Rightarrow> string \<Rightarrow> py_error + bool" where
  "contains (PDict d) k = Inr (map_of d k \<noteq> None)"
| "contains (PList xs) k = Inr (list_ex (py_eq (PStr k)) xs)"
| "contains (PStr s) k = Inr (str_contains s k)"
| "contains _ k = Inl TypeError"

fun getitem :: "pyval \<Rightarrow> string \<Rightarrow> py_error + pyval" where
  "getitem (PDict d) k = (case map_of d k of None \<Rightarrow> Inl KeyError | Some v \<Rightarrow> Inr v)"
| "getitem _ k = Inl TypeError"

section \<open>The deep comparator\<close>

text \<open>
  The two nested \<^verbatim>\<open>for\<close> loops of \<^verbatim>\<open>__match_list\<close>: \<open>found_in f bs\<close> is the inner loop
  (\<^verbatim>\<open>found = False; for item_b in list_b: if ...: found = True; break\<close>), \<open>all_found f as\<close>
  the outer one (\<^verbatim>\<open>if not found: match = False; break\<close>). An exception raised by a test
  leaves both loops.
\<close>

fun found_in :: "('a \<Rightarrow> py_error + bool) \<Rightarrow> 'a list \<Rightarrow> py_error + bool" where
  "found_in f [] = Inr False"
| "found_in f (b # bs) =
     (case f b of Inl e \<Rightarrow> Inl e | Inr True \<Rightarrow> Inr True | Inr False \<Rightarrow> found_in f bs)"

fun all_found :: "('a \<Rightarrow> py_error + bool) \<Rightarrow> 'a list \<Rightarrow> py_error + bool" where
  "all_found f [] = Inr True"
| "all_found f (a # as) =
     (case f a of Inl e \<Rightarrow> Inl e | Inr False \<Rightarrow> Inr False | Inr True \<Rightarrow> all_found f as)"

lemma found_in_cong [fundef_cong]:
  "xs = ys \<Longrightarrow> (\<And>x. x \<in> set ys \<Longrightarrow> f x = g x) \<Longrightarrow> found_in f xs = found_in g ys"
  by (induction ys arbitrary: xs) (auto split: sum.splits bool.splits)

lemma all_found_cong [fundef_cong]:
  "xs = ys \<Longrightarrow> (\<And>x. x \<in> set ys \<Longrightarrow> f x = g x) \<Longrightarrow> all_found f xs = all_found g ys"
  by (induction ys arbitrary: xs) (auto split: sum.splits bool.splits)

text \<open>
  The test of the dictionary branch (lines 293-300):
  \<^verbatim>\<open>
  if '__cmp__' in dir(item_b):
      if item_a == item_b: ...
  else:
      if item_a.items() == item_b.items(): ...
  \<close>
  On Python 3 \<^verbatim>\<open>items()\<close> are set-like views, equal exactly when the dictionaries are.
  On Python 2 the second branch is only reached for an \<open>item_b\<close> without \<^verbatim>\<open>__cmp__\<close>,
  which is never a dictionary, so \<^verbatim>\<open>item_b.items()\<close> raises there.
\<close>

definition same_dict :: "interp \<Rightarrow> pyval \<Rightarrow> pyval \<Rightarrow> py_error + bool" where
  "same_dict py item_a item_b =
     (if has_cmp py item_b then Inr (py_eq item_a item_b)
      else (case items item_a of
              Inl e \<Rightarrow> Inl e
            | Inr ia \<Rightarrow>
                (case items item_b of
                   Inl e \<Rightarrow> Inl e
                 | Inr ib \<Rightarrow> Inr (length ia = length ib \<and> py_eq_items ia ib))))"

text \<open>
  \<^verbatim>\<open>__match_list(list_a, list_b)\<close>, lines 283-318. The arguments are whatever the caller
  found under a key, so they are arbitrary values. The branch is chosen by the type of
  \<^verbatim>\<open>list_a[0]\<close>; in the first two branches \<open>list_a\<close> is a list, because only a list has
  a dictionary or a list as element 0 (the remaining case alternative is unreachable).
\<close>

fun match_list :: "interp \<Rightarrow> pyval \<Rightarrow> pyval \<Rightarrow> py_error + bool" where
  "match_list py list_a list_b =
     (if \<not> truthy list_a \<and> \<not> truthy list_b then Inr True
      else if \<not> truthy list_a \<or> \<not> truthy list_b then Inr False
      else (case first_item list_a of
              Inl e \<Rightarrow> Inl e
            | Inr x \<Rightarrow>
                if type_name x = ''dict'' then
                  (case list_a of
                     PList as \<Rightarrow>
                       all_found (\<lambda>item_a.
                         case py_iter list_b of
                           Inl e \<Rightarrow> Inl e
                         | Inr bs \<Rightarrow> found_in (same_dict py item_a) bs) as
                   | _ \<Rightarrow> Inl TypeError)
                else if type_name x = ''list'' then
                  (case list_a of
                     PList as \<Rightarrow>
                       all_found (\<lambda>item_a.
                         case py_iter list_b of
                           Inl e \<Rightarrow> Inl e
                         | Inr bs \<Rightarrow> found_in (match_list py item_a) bs) as
                   | _ \<Rightarrow> Inl TypeError)
                else
                  (case py_set list_a of
                     Inl e \<Rightarrow> Inl e
                   | Inr sa \<Rightarrow>
                       (case py_set list_b of
                          Inl e \<Rightarrow> Inl e
                        | Inr sb \<Rightarrow> Inr (set_eq sa sb)))))"

declare match_list.simps [simp del]

text \<open>
  \<^verbatim>\<open>__match_dict(dict_a, dict_b)\<close>, lines 248-281. \<open>dict_a\<close> is always a dictionary (the
  result of \<^verbatim>\<open>to_dict()\<close>, or a value whose type name is \<^verbatim>\<open>dict\<close>); \<open>dict_b\<close> is what
  the other side holds. \<open>match_items\<close> is the loop over \<^verbatim>\<open>dict_a.items()\<close>; both
  \<^verbatim>\<open>None\<close> tests evaluate \<^verbatim>\<open>dict_b[key_a]\<close> first.
\<close>

fun match_dict :: "interp \<Rightarrow> (string \<times> pyval) list \<Rightarrow> pyval \<Rightarrow> py_error + bool"
  and match_items :: "interp \<Rightarrow> (string \<times> pyval) list \<Rightarrow> pyval \<Rightarrow> py_error + bool"
where
  "match_dict py dict_a dict_b =
     (if dict_a = [] \<and> \<not> truthy dict_b then Inr True
      else if dict_a = [] \<or> \<not> truthy dict_b then Inr False
      else match_items py dict_a dict_b)"
| "match_items py [] dict_b = Inr True"
| "match_items py ((key_a, value_a) # rest) dict_b =
     (case contains dict_b key_a of
        Inl e \<Rightarrow> Inl e
      | Inr False \<Rightarrow> Inr False
      | Inr True \<Rightarrow>
          (case getitem dict_b key_a of
             Inl e \<Rightarrow> Inl e
           | Inr value_b \<Rightarrow>
               if value_a = PNone \<and> value_b = PNone then match_items py rest dict_b
               else if value_a = PNone \<or> value_b = PNone then Inr False
               else (case value_a of
                       PList xs \<Rightarrow>
                         (case match_list py value_a value_b of
                            Inl e \<Rightarrow> Inl e
                          | Inr False \<Rightarrow> Inr False
                          | Inr True \<Rightarrow> match_items py rest dict_b)
                     | PDict d \<Rightarrow>
                         (case match_dict py d value_b of
                            Inl e \<Rightarrow> Inl e
                          | Inr False \<Rightarrow> Inr False
                          | Inr True \<Rightarrow> match_items py rest dict_b)
                     | _ \<Rightarrow>
                         if \<not> py_eq value_a value_b then Inr False
                         else match_items py rest dict_b)))"

declare match_dict.simps(1) [simp del]

text \<open>
  The arguments of \<^verbatim>\<open>objects_match\<close>: any plain value, or an instance of a generated
  model class, given by its class name and by what its \<^verbatim>\<open>to_dict()\<close> returns. The
  generated classes define neither \<^verbatim>\<open>__bool__\<close> nor \<^verbatim>\<open>__len__\<close>, so an instance is
  always true; a plain value has no \<^verbatim>\<open>to_dict\<close>.
\<close>

datatype pyobj = Plain pyval | Model string "(string \<times> pyval) list"

fun obj_truthy :: "pyobj \<Rightarrow> bool" where
  "obj_truthy (Plain v) = truthy v"
| "obj_truthy (Model n d) = True"

fun obj_type_name :: "pyobj \<Rightarrow> string" where
  "obj_type_name (Plain v) = type_name v"
| "obj_type_name (Model n d) = n"

fun to_dict :: "pyobj \<Rightarrow> py_error + (string \<times> pyval) list" where
  "to_dict (Plain v) = Inl AttributeError"
| "to_dict (Model n d) = Inr d"

text \<open>\<^verbatim>\<open>objects_match(obj_a, obj_b)\<close>, lines 236-246.\<close>

definition objects_match :: "interp \<Rightarrow> pyobj \<Rightarrow> pyobj \<Rightarrow> py_error + bool" where
  "objects_match py obj_a obj_b =
     (if obj_a = Plain PNone \<and> obj_b = Plain PNone then Inr True
      else if \<not> obj_truthy obj_a \<or> \<not> obj_truthy obj_b then Inr False
      else if obj_type_name obj_a \<noteq> obj_type_name obj_b then Inr False
      else (case to_dict obj_a of
              Inl e \<Rightarrow> Inl e
            | Inr dict_a \<Rightarrow>
                (case to_dict obj_b of
                   Inl e \<Rightarrow> Inl e
                 | Inr dict_b \<Rightarrow> match_dict py dict_a (PDict dict_b))))"



fun is_dict :: "pyval \<Rightarrow> bool" where
  "is_dict (PDict d) = True"
| "is_dict _ = False"


text \<open>The keys of every dictionary inside a value are distinct.\<close>

fun wf_val :: "pyval \<Rightarrow> bool" where
  "wf_val (PList xs) = list_all wf_val xs"
| "wf_val (PDict d) = (distinct (map fst d) \<and> list_all (\<lambda>kv. wf_val (snd kv)) d)"
| "wf_val _ = True"

section \<open>Version markers in type names\<close>

text \<open>
  \<^verbatim>\<open>VERSION_RX = re.compile("V\d((alpha|beta)\d)?")\<close> (line 26). Characters are bytes
  here, so \<^verbatim>\<open>\d\<close> is one of the ten ASCII digits.
\<close>

definition is_digit :: "char \<Rightarrow> bool" where
  "is_digit c = (c \<in> set ''0123456789'')"

text \<open>
  The length matched by the optional group \<^verbatim>\<open>((alpha|beta)\d)?\<close> at the start of a
  string: the group is greedy, so it is taken whenever it matches.
\<close>

definition suffix_len :: "string \<Rightarrow> nat" where
  "suffix_len s =
     (if startswith s ''alpha'' \<and> (case drop 5 s of [] \<Rightarrow> False | d # r \<Rightarrow> is_digit d) then 6
      else if startswith s ''beta'' \<and> (case drop 4 s of [] \<Rightarrow> False | d # r \<Rightarrow> is_digit d) then 5
      else 0)"

text \<open>\<^verbatim>\<open>VERSION_RX.match(s)\<close>: the length of the match at the start of \<open>s\<close>, if any.\<close>

definition match_version :: "string \<Rightarrow> nat option" where
  "match_version s =
     (case s of
        v # d # r \<Rightarrow> if v = CHR ''V'' \<and> is_digit d then Some (2 + suffix_len r) else None
      | _ \<Rightarrow> None)"

text \<open>\<^verbatim>\<open>VERSION_RX.search(s) is not None\<close>: the pattern matches somewhere in \<open>s\<close>.\<close>

fun version_search :: "string \<Rightarrow> bool" where
  "version_search [] = False"
| "version_search (c # s) = (match_version (c # s) \<noteq> None \<or> version_search s)"

text \<open>
  \<^verbatim>\<open>VERSION_RX.sub('', s)\<close>: every non-overlapping match, found from left to right, is
  replaced by the empty string; the scan resumes after each match.
\<close>

lemma match_version_pos: "match_version s = Some n \<Longrightarrow> 2 \<le> n"
  by (auto simp: match_version_def split: list.splits if_splits)

function version_sub :: "string \<Rightarrow> string" where
  "version_sub [] = []"
| "version_sub (c # s) =
     (case match_version (c # s) of
        Some n \<Rightarrow> version_sub (drop n (c # s))
      | None \<Rightarrow> c # version_sub s)"
  by pat_completeness auto
termination
  by (relation "measure length") (auto dest: match_version_pos)


text \<open>
  The grammar of a version token in words: \<^verbatim>\<open>V\<close>, a digit, and then either nothing or
  \<^verbatim>\<open>alpha\<close> or \<^verbatim>\<open>beta\<close> followed by a digit (\<^verbatim>\<open>V1\<close>, \<^verbatim>\<open>V1beta1\<close>, \<^verbatim>\<open>V2alpha1\<close>).
\<close>

definition is_version_token :: "string \<Rightarrow> bool" where
  "is_version_token t =
     (case t of
        v # d # r \<Rightarrow>
          v = CHR ''V'' \<and> is_digit d \<and>
          (r = [] \<or> (r \<noteq> [] \<and> is_digit (last r) \<and> butlast r \<in> set [''alpha'', ''beta'']))
      | _ \<Rightarrow> False)"

section \<open>Model instances and the sanitizer\<close>

text \<open>
  An object as the helper handles it: \<^verbatim>\<open>None\<close>, a scalar, a list, a dictionary, or an
  instance of a generated model class. An instance has a class name and its attributes in
  the order of \<^verbatim>\<open>swagger_types.items()\<close>: each is a name, the declared type of the name
  (\<open>Some\<close> of the \<^verbatim>\<open>swagger_types\<close> string, or \<open>None\<close> for a plain attribute that an
  assignment added and \<^verbatim>\<open>swagger_types\<close> does not list) and the current value. Other
  scalars of the client library, such as dates, are strings here. Objects form a tree:
  no object is referenced twice.
\<close>

datatype kobj =
    KNone
  | KBool bool
  | KInt int
  | KStr string
  | KList "kobj list"
  | KDict "(string \<times> kobj) list"
  | KObj string "(string \<times> string option \<times> kobj) list"

text \<open>
  \<^verbatim>\<open>__remove_creation_timestamps(obj)\<close>, lines 425-437. The method changes \<open>obj\<close> in
  place; the function returns the object as it is afterwards. \<open>sanitize_fields\<close> is the
  loop over \<^verbatim>\<open>obj.swagger_types.items()\<close>. A value without \<^verbatim>\<open>swagger_types\<close> is left
  alone.
\<close>

fun remove_creation_timestamps :: "kobj \<Rightarrow> kobj"
  and sanitize_fields :: "(string \<times> string option \<times> kobj) list \<Rightarrow> (string \<times> string option \<times> kobj) list"
where
  "remove_creation_timestamps (KObj n attrs) = KObj n (sanitize_fields attrs)"
| "remove_creation_timestamps KNone = KNone"
| "remove_creation_timestamps (KBool b) = KBool b"
| "remove_creation_timestamps (KInt i) = KInt i"
| "remove_creation_timestamps (KStr s) = KStr s"
| "remove_creation_timestamps (KList xs) = KList xs"
| "remove_creation_timestamps (KDict d) = KDict d"
| "sanitize_fields [] = []"
| "sanitize_fields ((key, None, attr) # rest) = (key, None, attr) # sanitize_fields rest"
| "sanitize_fields ((key, Some value, attr) # rest) =
     (if key = ''creation_timestamp'' then (key, Some value, KNone)
      else if startswith value ''dict('' \<or> startswith value ''list['' then (key, Some value, attr)
      else if value \<in> set [''str'', ''int'', ''bool''] then (key, Some value, attr)
      else if attr \<noteq> KNone then (key, Some value, remove_creation_timestamps attr)
      else (key, Some value, attr))
     # sanitize_fields rest"

section \<open>The API client and the lifecycle operations\<close>

text \<open>Truth value and attribute access on objects.\<close>

fun k_truthy :: "kobj \<Rightarrow> bool" where
  "k_truthy KNone = False"
| "k_truthy (KBool b) = b"
| "k_truthy (KInt i) = (i \<noteq> 0)"
| "k_truthy (KStr s) = (s \<noteq> [])"
| "k_truthy (KList xs) = (xs \<noteq> [])"
| "k_truthy (KDict d) = (d \<noteq> [])"
| "k_truthy (KObj n attrs) = True"

text \<open>
  \<^verbatim>\<open>obj.name\<close> for the attribute names the helper reads (\<^verbatim>\<open>status\<close>, \<^verbatim>\<open>phase\<close>,
  \<^verbatim>\<open>metadata\<close>, \<^verbatim>\<open>name\<close>): only a model instance has them; \<^verbatim>\<open>None\<close> and the built-in
  values raise \<^verbatim>\<open>AttributeError\<close>.
\<close>

fun getattr :: "kobj \<Rightarrow> string \<Rightarrow> py_error + kobj" where
  "getattr (KObj n attrs) k =
     (case map_of attrs k of None \<Rightarrow> Inl AttributeError | Some tv \<Rightarrow> Inr (snd tv))"
| "getattr _ k = Inl AttributeError"

definition hasattr :: "kobj \<Rightarrow> string \<Rightarrow> bool" where
  "hasattr obj k = (case getattr obj k of Inl e \<Rightarrow> False | Inr v \<Rightarrow> True)"

text \<open>
  \<^verbatim>\<open>obj.name = v\<close>: on a model instance the attribute is replaced, or added as a plain
  attribute when the instance has none of that name; \<^verbatim>\<open>None\<close> and the built-in values
  accept no attribute.
\<close>

fun setattr :: "kobj \<Rightarrow> string \<Rightarrow> kobj \<Rightarrow> py_error + kobj" where
  "setattr (KObj n attrs) k v =
     Inr (KObj n
       (if map_of attrs k = None then attrs @ [(k, None, v)]
        else map (\<lambda>f. if fst f = k then (k, fst (snd f), v) else f) attrs))"
| "setattr _ k v = Inl AttributeError"

text \<open>\<^verbatim>\<open>obj.a.b = v\<close>: the object held in \<^verbatim>\<open>obj.a\<close> is changed in place.\<close>

definition setattr2 :: "kobj \<Rightarrow> string \<Rightarrow> string \<Rightarrow> kobj \<Rightarrow> py_error + kobj" where
  "setattr2 obj a b v =
     (case getattr obj a of
        Inl e \<Rightarrow> Inl e
      | Inr inner \<Rightarrow>
          (case setattr inner b v of
             Inl e \<Rightarrow> Inl e
           | Inr inner' \<Rightarrow> setattr obj a inner'))"

text \<open>
  Modelled from the spec: the transport error type, \<^verbatim>\<open>kubernetes.client.rest.ApiException\<close>,
  which is not among the sources: "a transport error type carrying an HTTP-like status
  code and a JSON body containing a message field". \<open>body\<close> is the object that
  \<^verbatim>\<open>json.loads(exc.body)\<close> yields, \<open>reason\<close> the fallback the helper passes to
  \<^verbatim>\<open>.get('message', exc.reason)\<close>, and \<open>rendering\<close> is \<^verbatim>\<open>str(exc)\<close>.
\<close>

record api_exception =
  status :: int
  reason :: string
  body :: "(string \<times> string) list"
  rendering :: string

text \<open>\<^verbatim>\<open>json.loads(exc.body).get('message', exc.reason)\<close>.\<close>

definition message_of :: "api_exception \<Rightarrow> string" where
  "message_of exc = (case map_of (body exc) ''message'' of None \<Rightarrow> reason exc | Some m \<Rightarrow> m)"

text \<open>
  The cluster is seen through the calls made to it. The \<open>world\<close> counts the API requests
  made so far and the time spent in \<^verbatim>\<open>time.sleep\<close>; what a request returns may depend on
  both, so an object can appear or disappear while the helper polls.
\<close>

record world =
  calls :: nat
  clock :: nat

definition sleep :: "nat \<Rightarrow> world \<Rightarrow> world" where
  "sleep n w = w\<lparr>clock := clock w + n\<rparr>"

text \<open>
  A method of an API class: the argument names that \<^verbatim>\<open>inspect.getargspec\<close> reports, and
  what a call does: it returns an object, raises \<^verbatim>\<open>ApiException\<close>, or raises something
  else (a \<^verbatim>\<open>TypeError\<close> or \<^verbatim>\<open>ValueError\<close> for bad arguments).
\<close>

datatype arg = Pos kobj | Kw string kobj

datatype outcome = Returns kobj | Fails api_exception | Throws py_error

record api_method =
  argnames :: "string list"
  invoke :: "arg list \<Rightarrow> world \<Rightarrow> outcome"

definition call :: "api_method \<Rightarrow> arg list \<Rightarrow> world \<Rightarrow> outcome \<times> world" where
  "call m args w = (invoke m args w, w\<lparr>calls := Suc (calls w)\<rparr>)"

text \<open>
  The helper instance and the modules it uses: the interpreter, \<^verbatim>\<open>self.kind\<close>, the
  classes of \<^verbatim>\<open>client.apis\<close> by name in the order of \<^verbatim>\<open>dir(client.apis)\<close> with their
  methods, for each name in \<^verbatim>\<open>self.properties\<close> the instance that calling its
  \<^verbatim>\<open>'class'\<close> yields, and the instance \<^verbatim>\<open>V1DeleteOptions()\<close>.
\<close>

record helper =
  python :: interp
  kind :: string
  apis :: "(string \<times> (string \<times> api_method) list) list"
  properties :: "(string \<times> kobj) list"
  delete_options :: kobj

text \<open>\<^verbatim>\<open>__lookup_method(operation, namespace)\<close>, lines 357-383.\<close>

fun ns_truthy :: "string option \<Rightarrow> bool" where
  "ns_truthy None = False"
| "ns_truthy (Some ns) = (ns \<noteq> [])"

definition method_name :: "helper \<Rightarrow> string \<Rightarrow> string option \<Rightarrow> string" where
  "method_name h operation namespace =
     operation @ (if ns_truthy namespace then ''_namespaced_'' else ''_'') @ kind h"

definition api_names :: "helper \<Rightarrow> string list" where
  "api_names h = filter version_search (map fst (apis h)) @ [''OapiApi'']"

fun find_method :: "helper \<Rightarrow> string \<Rightarrow> string list \<Rightarrow> py_error + api_method option" where
  "find_method h name [] = Inr None"
| "find_method h name (api # rest) =
     (case map_of (apis h) api of
        None \<Rightarrow> Inl AttributeError
      | Some api_class \<Rightarrow>
          (case map_of api_class name of
             Some method \<Rightarrow> Inr (Some method)
           | None \<Rightarrow> find_method h name rest))"

definition lookup_method :: "helper \<Rightarrow> string \<Rightarrow> string option \<Rightarrow> py_error + api_method" where
  "lookup_method h operation namespace =
     (case find_method h (method_name h operation namespace) (api_names h) of
        Inl e \<Rightarrow> Inl e
      | Inr None \<Rightarrow>
          Inl (OpenShiftException
                 (''Error: method '' @ method_name h operation namespace @
                  '' not found for model '' @ kind h @ ''. '' @
                  (if \<not> ns_truthy namespace then ''Did you forget to include the namespace?''
                   else ''''))
                 None)
      | Inr (Some method) \<Rightarrow> Inr method)"

text \<open>
  The namespace argument of a call: the read and create calls pass it unless it
  \<^verbatim>\<open>is None\<close>, the patch and delete calls pass it when it is true (not \<^verbatim>\<open>None\<close> and
  not empty).
\<close>

fun unless_none :: "string option \<Rightarrow> arg list" where
  "unless_none None = []"
| "unless_none (Some ns) = [Pos (KStr ns)]"

definition when_true :: "string option \<Rightarrow> arg list" where
  "when_true namespace = (if ns_truthy namespace then unless_none namespace else [])"

text \<open>
  \<^verbatim>\<open>get_object(name, namespace=None)\<close>, lines 117-129. An exception that is not an
  \<^verbatim>\<open>ApiException\<close> passes through the \<^verbatim>\<open>try\<close>.
\<close>

definition get_object ::
  "helper \<Rightarrow> kobj \<Rightarrow> string option \<Rightarrow> world \<Rightarrow> (py_error + kobj) \<times> world" where
  "get_object h name namespace w =
     (case lookup_method h ''read'' namespace of
        Inl e \<Rightarrow> (Inl e, w)
      | Inr get_method \<Rightarrow>
          (case call get_method ([Pos name] @ unless_none namespace) w of
             (Returns k8s_obj, w') \<Rightarrow> (Inr k8s_obj, w')
           | (Fails exc, w') \<Rightarrow>
               if status exc \<noteq> 404
               then (Inl (OpenShiftException (message_of exc) (Some (status exc))), w')
               else (Inr KNone, w')
           | (Throws e, w') \<Rightarrow> (Inl e, w')))"

text \<open>
  \<^verbatim>\<open>math.ceil(timeout / 2)\<close> for an integer \<open>timeout\<close>: on Python 2 the division is the
  floor division of integers, on Python 3 it is exact and \<^verbatim>\<open>ceil\<close> rounds up.
\<close>

fun half_of :: "interp \<Rightarrow> int \<Rightarrow> int" where
  "half_of Py2 timeout = timeout div 2"
| "half_of Py3 timeout = (timeout + 1) div 2"

text \<open>
  The wait loop of \<^verbatim>\<open>create_object\<close> (lines 181-197) and of \<^verbatim>\<open>patch_object\<close> (lines
  149-166); the two are the same text but for the name they poll, which is
  \<^verbatim>\<open>k8s_obj.metadata.name\<close>, evaluated in every round, in the first and \<^verbatim>\<open>name\<close> in the
  second. \<open>name\<close> is that expression's outcome.
\<close>

function wait_ready ::
  "helper \<Rightarrow> py_error + kobj \<Rightarrow> string option \<Rightarrow> int \<Rightarrow> int \<Rightarrow> kobj \<Rightarrow> world
     \<Rightarrow> (py_error + kobj) \<times> world" where
  "wait_ready h name namespace half tries return_obj w =
     (if tries \<le> half then
        (case name of
           Inl e \<Rightarrow> (Inl e, w)
         | Inr n \<Rightarrow>
             (case get_object h n namespace w of
                (Inl e, w') \<Rightarrow> (Inl e, w')
              | (Inr obj, w') \<Rightarrow>
                  (case getattr obj ''status'' of
                     Inl e \<Rightarrow> (Inl e, w')
                   | Inr st \<Rightarrow>
                       if hasattr st ''phase'' then
                         (if getattr st ''phase'' = Inr (KStr ''Active'') then (Inr obj, w')
                          else wait_ready h name namespace half (tries + 2) obj (sleep 2 w'))
                       else if obj \<noteq> KNone then (Inr obj, w')
                       else wait_ready h name namespace half (tries + 2) return_obj (sleep 2 w'))))
      else (Inr return_obj, w))"
  by pat_completeness auto
termination
  by (relation "measure (\<lambda>(h, name, namespace, half, tries, return_obj, w). nat (half - tries + 1))")
     auto

declare wait_ready.simps [simp del]

text \<open>\<^verbatim>\<open>create_object(namespace, k8s_obj, wait=False, timeout=60)\<close>, lines 169-199.\<close>

definition obj_name :: "kobj \<Rightarrow> py_error + kobj" where
  "obj_name k8s_obj =
     (case getattr k8s_obj ''metadata'' of Inl e \<Rightarrow> Inl e | Inr md \<Rightarrow> getattr md ''name'')"

definition create_object ::
  "helper \<Rightarrow> string option \<Rightarrow> kobj \<Rightarrow> bool \<Rightarrow> int \<Rightarrow> world \<Rightarrow> (py_error + kobj) \<times> world" where
  "create_object h namespace k8s_obj wait timeout w =
     (case lookup_method h ''create'' namespace of
        Inl e \<Rightarrow> (Inl e, w)
      | Inr create_method \<Rightarrow>
          (case call create_method (unless_none namespace @ [Pos k8s_obj]) w of
             (Fails exc, w') \<Rightarrow>
               (Inl (OpenShiftException (message_of exc) (Some (status exc))), w')
           | (Throws e, w') \<Rightarrow> (Inl e, w')
           | (Returns return_obj, w') \<Rightarrow>
               if wait
               then wait_ready h (obj_name k8s_obj) namespace (half_of (python h) timeout) 0
                      return_obj w'
               else (Inr return_obj, w')))"

text \<open>
  \<^verbatim>\<open>patch_object(name, namespace, k8s_obj, wait=False, timeout=60)\<close>, lines 131-167. The
  object is prepared first: its status is replaced by an empty one, the resource version
  is cleared and the sanitizer runs. (The \<^verbatim>\<open>logger.debug\<close> call that follows renders
  the object for the log; it is taken to succeed and has no part in the result.) The
  caller's object is changed in place; in the model the changed object is the one passed
  to the patch method. The \<^verbatim>\<open>except\<close> clause computes \<^verbatim>\<open>msg\<close> and then raises
  \<^verbatim>\<open>OpenShiftException(str(exc))\<close>.
\<close>

definition patch_object ::
  "helper \<Rightarrow> kobj \<Rightarrow> string option \<Rightarrow> kobj \<Rightarrow> bool \<Rightarrow> int \<Rightarrow> world
     \<Rightarrow> (py_error + kobj) \<times> world" where
  "patch_object h name namespace k8s_obj wait timeout w =
     (case map_of (properties h) ''status'' of
        None \<Rightarrow> (Inl KeyError, w)
      | Some empty_status \<Rightarrow>
     (case setattr k8s_obj ''status'' empty_status of
        Inl e \<Rightarrow> (Inl e, w)
      | Inr obj1 \<Rightarrow>
     (case setattr2 obj1 ''metadata'' ''resource_version'' KNone of
        Inl e \<Rightarrow> (Inl e, w)
      | Inr obj2 \<Rightarrow>
     (case lookup_method h ''patch'' namespace of
        Inl e \<Rightarrow> (Inl e, w)
      | Inr patch_method \<Rightarrow>
          (case call patch_method
                  ([Pos name] @ when_true namespace @ [Pos (remove_creation_timestamps obj2)]) w of
             (Fails exc, w') \<Rightarrow> (Inl (OpenShiftException (rendering exc) None), w')
           | (Throws e, w') \<Rightarrow> (Inl e, w')
           | (Returns return_obj, w') \<Rightarrow>
               if wait
               then wait_ready h (Inr name) namespace (half_of (python h) timeout) 0 return_obj w'
               else (Inr return_obj, w'))))))"

text \<open>
  The wait loop of \<^verbatim>\<open>delete_object\<close>, lines 222-231: it ends when \<^verbatim>\<open>get_object\<close> returns
  something false, or when \<open>tries\<close> has passed \<open>half\<close>.
\<close>

function wait_gone ::
  "helper \<Rightarrow> kobj \<Rightarrow> string option \<Rightarrow> int \<Rightarrow> int \<Rightarrow> world \<Rightarrow> (py_error + kobj) \<times> world" where
  "wait_gone h name namespace half tries w =
     (if tries \<le> half then
        (case get_object h name namespace w of
           (Inl e, w') \<Rightarrow> (Inl e, w')
         | (Inr obj, w') \<Rightarrow>
             if \<not> k_truthy obj then (Inr KNone, w')
             else wait_gone h name namespace half (tries + 2) (sleep 2 w'))
      else (Inr KNone, w))"
  by pat_completeness auto
termination
  by (relation "measure (\<lambda>(h, name, namespace, half, tries, w). nat (half - tries + 1))") auto

declare wait_gone.simps [simp del]


text \<open>
  \<^verbatim>\<open>delete_object(name, namespace, wait=False, timeout=60)\<close>, lines 201-231. The method is
  looked up outside the \<^verbatim>\<open>try\<close>; the two branches on \<^verbatim>\<open>not namespace\<close> differ only in
  the positional arguments. The function returns \<^verbatim>\<open>None\<close>.
\<close>

definition delete_object ::
  "helper \<Rightarrow> kobj \<Rightarrow> string option \<Rightarrow> bool \<Rightarrow> int \<Rightarrow> world \<Rightarrow> (py_error + kobj) \<times> world" where
  "delete_object h name namespace wait timeout w =
     (case lookup_method h ''delete'' namespace of
        Inl e \<Rightarrow> (Inl e, w)
      | Inr delete_method \<Rightarrow>
          (case call delete_method
                  ([Pos name] @ when_true namespace
                   @ (if ''body'' \<in> set (argnames delete_method)
                      then [Kw ''body'' (delete_options h)] else [])) w of
             (Fails exc, w') \<Rightarrow>
               (Inl (OpenShiftException (message_of exc) (Some (status exc))), w')
           | (Throws e, w') \<Rightarrow> (Inl e, w')
           | (Returns r, w') \<Rightarrow>
               if wait then wait_gone h name namespace (half_of (python h) timeout) 0 w'
               else (Inr KNone, w')))"

text \<open>\<^verbatim>\<open>update_object(name, namespace, k8s_obj)\<close>, lines 233-234: the body is \<^verbatim>\<open>pass\<close>.\<close>

definition update_object ::
  "helper \<Rightarrow> kobj \<Rightarrow> string option \<Rightarrow> kobj \<Rightarrow> world \<Rightarrow> (py_error + kobj) \<times> world" where
  "update_object h name namespace k8s_obj w = (Inr KNone, w)"

section \<open>A sample cluster\<close>

text \<open>
  Concrete objects, transport errors and a client for the closed instances below: a
  namespace object with a given phase, a 404 and a 409 response, a method that answers
  its first calls from a list and every later call with a fixed outcome, and a helper for
  the kind \<^verbatim>\<open>namespace\<close> whose four methods are all that method.
\<close>

definition namespace_obj :: "kobj \<Rightarrow> kobj" where
  "namespace_obj phase =
     KObj ''V1Namespace''
       [(''metadata'', Some ''V1ObjectMeta'',
           KObj ''V1ObjectMeta''
             [(''name'', Some ''str'', KStr ''demo''),
              (''resource_version'', Some ''str'', KStr ''7''),
              (''creation_timestamp'', Some ''datetime'', KStr ''2017-03-01'')]),
        (''status'', Some ''V1NamespaceStatus'',
           KObj ''V1NamespaceStatus'' [(''phase'', Some ''str'', phase)])]"


definition conflict :: api_exception where
  "conflict = \<lparr>status = 409, reason = ''Conflict'',
                body = [(''kind'', ''Status''), (''message'', ''namespaces demo already exists'')],
                rendering = ''(409) Reason: Conflict''\<rparr>"

definition script :: "outcome list \<Rightarrow> outcome \<Rightarrow> api_method" where
  "script outs rest =
     \<lparr>argnames = [''self'', ''name'', ''body''],
      invoke = (\<lambda>args w. if calls w < length outs then outs ! calls w else rest)\<rparr>"

definition demo_helper :: "interp \<Rightarrow> api_method \<Rightarrow> helper" where
  "demo_helper py m =
     \<lparr>python = py, kind = ''namespace'',
      apis = [(''CoreV1Api'',
                 [(''read_namespace'', m), (''create_namespace'', m),
                  (''patch_namespace'', m), (''delete_namespace'', m)]),
              (''OapiApi'', [])],
      properties = [(''status'', KObj ''V1NamespaceStatus'' [(''phase'', Some ''str'', KNone)])],
      delete_options = KObj ''V1DeleteOptions'' []\<rparr>"

section \<open>Properties of the deep comparator\<close>

text \<open>
  Only a list has a dictionary or a list as element 0, so the two loops of
  \<open>match_list\<close> always run over a list.
\<close>

lemma first_item_container:
  "first_item v = Inr x \<Longrightarrow> type_name x = ''dict'' \<or> type_name x = ''list'' \<Longrightarrow> \<exists>as. v = PList as"
  by (cases v rule: first_item.cases) auto

lemma found_in_total:
  "(\<And>b. b \<in> set bs \<Longrightarrow> \<exists>r. f b = Inr r) \<Longrightarrow>
   found_in f bs = Inr (list_ex (\<lambda>b. f b = Inr True) bs)"
proof (induction bs)
  case Nil
  show ?case by simp
next
  case (Cons b bs)
  from Cons.prems [of b] obtain r where r: "f b = Inr r" by auto
  have "found_in f bs = Inr (list_ex (\<lambda>b. f b = Inr True) bs)"
    using Cons.IH Cons.prems by simp
  with r show ?case by (cases r) simp_all
qed

lemma all_found_total:
  "(\<And>a. a \<in> set as \<Longrightarrow> \<exists>r. f a = Inr r) \<Longrightarrow>
   all_found f as = Inr (list_all (\<lambda>a. f a = Inr True) as)"
proof (induction as)
  case Nil
  show ?case by simp
next
  case (Cons a as)
  from Cons.prems [of a] obtain r where r: "f a = Inr r" by auto
  have "all_found f as = Inr (list_all (\<lambda>a. f a = Inr True) as)"
    using Cons.IH Cons.prems by simp
  with r show ?case by (cases r) simp_all
qed

lemma same_dict_dicts:
  "is_dict a \<Longrightarrow> is_dict b \<Longrightarrow> same_dict py a b = Inr (py_eq a b)"
  by (cases a; cases b; cases py) (simp_all add: same_dict_def)

lemma match_list_cons:
  "match_list py (PList (x # as)) (PList (y # bs)) =
     (if type_name x = ''dict'' then
        all_found (\<lambda>item_a. found_in (same_dict py item_a) (y # bs)) (x # as)
      else if type_name x = ''list'' then
        all_found (\<lambda>item_a. found_in (match_list py item_a) (y # bs)) (x # as)
      else (case py_set (PList (x # as)) of
              Inl e \<Rightarrow> Inl e
            | Inr sa \<Rightarrow>
                (case py_set (PList (y # bs)) of
                   Inl e \<Rightarrow> Inl e
                 | Inr sb \<Rightarrow> Inr (set_eq sa sb))))"
  by (subst match_list.simps) simp


lemma type_name_dict: "type_name x = ''dict'' \<longleftrightarrow> is_dict x"
  by (cases x) simp_all

lemma match_list_of_dicts:
  assumes "list_all is_dict la" "list_all is_dict lb" "la \<noteq> []" "lb \<noteq> []"
  shows "match_list py (PList la) (PList lb) = Inr (list_all (\<lambda>a. list_ex (py_eq a) lb) la)"
proof -
  obtain x as where la: "la = x # as" using assms(3) by (cases la) auto
  obtain y bs where lb: "lb = y # bs" using assms(4) by (cases lb) auto
  have x: "type_name x = ''dict''" using assms(1) la by (simp add: type_name_dict)
  have inner: "found_in (same_dict py a) lb = Inr (list_ex (py_eq a) lb)" if "a \<in> set la" for a
  proof -
    have a: "is_dict a" using that assms(1) by (simp add: list_all_iff)
    have "found_in (same_dict py a) lb = Inr (list_ex (\<lambda>b. same_dict py a b = Inr True) lb)"
      by (rule found_in_total) (use a assms(2) in \<open>auto simp: list_all_iff same_dict_dicts\<close>)
    also have "list_ex (\<lambda>b. same_dict py a b = Inr True) lb = list_ex (py_eq a) lb"
      using a assms(2) by (auto simp: list_ex_iff list_all_iff same_dict_dicts)
    finally show ?thesis .
  qed
  have "match_list py (PList la) (PList lb) =
        all_found (\<lambda>item_a. found_in (same_dict py item_a) lb) la"
    unfolding la lb using x by (simp add: match_list_cons)
  also have "\<dots> = Inr (list_all (\<lambda>a. found_in (same_dict py a) lb = Inr True) la)"
    by (rule all_found_total) (simp add: inner)
  also have "list_all (\<lambda>a. found_in (same_dict py a) lb = Inr True) la =
             list_all (\<lambda>a. list_ex (py_eq a) lb) la"
    by (auto simp: list_all_iff inner)
  finally show ?thesis .
qed

lemma py_eq_list_refl: "(\<And>x. x \<in> set xs \<Longrightarrow> py_eq x x) \<Longrightarrow> py_eq_list xs xs"
  by (induction xs) simp_all

lemma py_eq_items_sub:
  "(\<And>k v. (k, v) \<in> set a \<Longrightarrow> map_of b k = Some v \<and> py_eq v v) \<Longrightarrow> py_eq_items a b"
proof (induction a)
  case Nil
  show ?case by simp
next
  case (Cons kv a)
  obtain k v where kv: "kv = (k, v)" by (cases kv)
  have "map_of b k = Some v \<and> py_eq v v" using Cons.prems [of k v] kv by simp
  moreover have "py_eq_items a b"
    by (rule Cons.IH) (use Cons.prems in auto)
  ultimately show ?case using kv by simp
qed

lemma py_eq_refl: "wf_val v \<Longrightarrow> py_eq v v"
proof (induction v)
  case (PList xs)
  then show ?case by (simp add: py_eq_list_refl list_all_iff)
next
  case (PDict d)
  have "py_eq_items d d"
  proof (rule py_eq_items_sub)
    fix k v assume kv: "(k, v) \<in> set d"
    have "map_of d k = Some v" using kv PDict.prems by simp
    moreover have "wf_val v" using kv PDict.prems by (auto simp: list_all_iff)
    then have "py_eq v v" using PDict.IH kv by force
    ultimately show "map_of d k = Some v \<and> py_eq v v" by simp
  qed
  then show ?case by simp
qed simp_all



lemma type_name_list: "type_name x = ''list'' \<longleftrightarrow> (\<exists>xs. x = PList xs)"
  by (cases x) simp_all
















subsection \<open>Reflexivity of \<open>objects_match\<close>\<close>




subsection \<open>Lists of mappings\<close>

text \<open>
  C2, as stated: for two non-empty lists whose first element of \<open>la\<close> is a mapping,
  \<^verbatim>\<open>__match_list\<close> returns true if and only if every element of \<open>la\<close> has an equal
  element in \<open>lb\<close>. It fails when \<open>lb\<close> holds something that is not a mapping before
  the equal element: for \<^verbatim>\<open>la = [{'a': 1}]\<close> and \<^verbatim>\<open>lb = ['x', {'a': 1}]\<close> the element of
  \<open>la\<close> has an equal element in \<open>lb\<close>, but \<^verbatim>\<open>'x'.items()\<close> raises \<^verbatim>\<open>AttributeError\<close> (a
  string has no \<^verbatim>\<open>__cmp__\<close> on either interpreter), so the call does not return true.
\<close>

theorem match_list_non_mapping_raises:
  "match_list Py3 (PList [PDict [(''a'', PInt 1)]]) (PList [PStr ''x'', PDict [(''a'', PInt 1)]])
     = Inl AttributeError
   \<and> match_list Py2 (PList [PDict [(''a'', PInt 1)]]) (PList [PStr ''x'', PDict [(''a'', PInt 1)]])
     = Inl AttributeError
   \<and> py_eq (PDict [(''a'', PInt 1)]) (PDict [(''a'', PInt 1)])"
  by (simp add: match_list.simps same_dict_def)

text \<open>
  C2, amended: for two non-empty lists \<open>la\<close>, \<open>lb\<close> all of whose elements are mappings,
  \<^verbatim>\<open>__match_list\<close> returns (it never raises), and it returns true if and only if every
  element of \<open>la\<close> has some element of \<open>lb\<close> equal to it as a mapping. Hence elements
  present only in \<open>lb\<close> are not detected: a match stays a match when \<open>lb\<close> grows.
  And duplicates are not counted: \<^verbatim>\<open>[a, a, b]\<close> matches \<^verbatim>\<open>[a, b]\<close>.
\<close>

theorem match_list_mappings_containment:
  assumes "la \<noteq> []" and "lb \<noteq> []" and "list_all is_dict la" and "list_all is_dict lb"
  shows "match_list py (PList la) (PList lb) = Inr (\<forall>a \<in> set la. \<exists>b \<in> set lb. py_eq a b)
       \<and> (list_all is_dict extra \<and> match_list py (PList la) (PList lb) = Inr True
            \<longrightarrow> match_list py (PList la) (PList (lb @ extra)) = Inr True)
       \<and> (is_dict a \<and> is_dict b \<and> wf_val a \<and> wf_val b
            \<longrightarrow> match_list py (PList [a, a, b]) (PList [a, b]) = Inr True)"
proof (intro conjI impI)
  show main: "match_list py (PList la) (PList lb) = Inr (\<forall>a \<in> set la. \<exists>b \<in> set lb. py_eq a b)"
    using match_list_of_dicts [OF assms(3,4,1,2)] by (simp add: list_all_iff list_ex_iff)
next
  assume h: "list_all is_dict extra \<and> match_list py (PList la) (PList lb) = Inr True"
  have "list_all is_dict (lb @ extra)" using h assms(4) by simp
  moreover have "lb @ extra \<noteq> []" using assms(2) by simp
  ultimately have "match_list py (PList la) (PList (lb @ extra)) =
                   Inr (list_all (\<lambda>a. list_ex (py_eq a) (lb @ extra)) la)"
    using match_list_of_dicts [OF assms(3) _ assms(1)] by blast
  moreover have "list_all (\<lambda>a. list_ex (py_eq a) lb) la"
    using h match_list_of_dicts [OF assms(3,4,1,2), of py] by simp
  then have "list_all (\<lambda>a. list_ex (py_eq a) (lb @ extra)) la"
    by (auto simp: list_all_iff list_ex_iff)
  ultimately show "match_list py (PList la) (PList (lb @ extra)) = Inr True" by simp
next
  assume h: "is_dict a \<and> is_dict b \<and> wf_val a \<and> wf_val b"
  then have "py_eq a a" "py_eq b b" by (simp_all add: py_eq_refl)
  moreover have "match_list py (PList [a, a, b]) (PList [a, b]) =
                 Inr (list_all (\<lambda>x. list_ex (py_eq x) [a, b]) [a, a, b])"
    by (rule match_list_of_dicts) (use h in simp_all)
  ultimately show "match_list py (PList [a, a, b]) (PList [a, b]) = Inr True" by simp
qed

theorem match_list_mappings_containment_witness:
  "match_list Py3
     (PList [PDict [(''name'', PStr ''http'')], PDict [(''name'', PStr ''http'')],
             PDict [(''name'', PStr ''https'')]])
     (PList [PDict [(''name'', PStr ''http'')], PDict [(''name'', PStr ''https'')]])
   = Inr True
   \<and> match_list Py3
     (PList [PDict [(''name'', PStr ''http'')], PDict [(''name'', PStr ''https'')]])
     (PList [PDict [(''name'', PStr ''http'')], PDict [(''name'', PStr ''https'')],
             PDict [(''name'', PStr ''extra'')]])
   = Inr True
   \<and> match_list Py3
     (PList [PDict [(''name'', PStr ''http'')], PDict [(''name'', PStr ''https'')],
             PDict [(''name'', PStr ''extra'')]])
     (PList [PDict [(''name'', PStr ''http'')], PDict [(''name'', PStr ''https'')]])
   = Inr False"
  using
    match_list_mappings_containment
      [where la = "[PDict [(''name'', PStr ''http'')], PDict [(''name'', PStr ''https'')]]"
         and lb = "[PDict [(''name'', PStr ''http'')], PDict [(''name'', PStr ''https'')]]"
         and extra = "[PDict [(''name'', PStr ''extra'')]]" and py = Py3
         and a = "PDict [(''name'', PStr ''http'')]" and b = "PDict [(''name'', PStr ''https'')]"]
    match_list_mappings_containment
      [where la = "[PDict [(''name'', PStr ''http'')], PDict [(''name'', PStr ''https'')],
                    PDict [(''name'', PStr ''extra'')]]"
         and lb = "[PDict [(''name'', PStr ''http'')], PDict [(''name'', PStr ''https'')]]"
         and extra = "[]" and py = Py3 and a = PNone and b = PNone]
  by simp

subsection \<open>Falsy arguments of \<open>objects_match\<close>\<close>

text \<open>
  C10: \<^verbatim>\<open>objects_match\<close> tests for null by truthiness. For any two arguments that are
  not \<^verbatim>\<open>None\<close> but false (\<^verbatim>\<open>0\<close>, \<^verbatim>\<open>''\<close>, \<^verbatim>\<open>[]\<close>, \<^verbatim>\<open>{}\<close>, \<^verbatim>\<open>False\<close>) it returns false,
  whether or not they are equal, hence in particular when they are; yet
  \<^verbatim>\<open>objects_match(None, None)\<close> returns true.
\<close>

theorem objects_match_falsy:
  assumes "\<not> obj_truthy a" and "\<not> obj_truthy b"
    and "a \<noteq> Plain PNone" and "b \<noteq> Plain PNone"
  shows "objects_match py a b = Inr False
       \<and> objects_match py (Plain PNone) (Plain PNone) = Inr True"
  using assms by (simp add: objects_match_def)

theorem objects_match_falsy_witness:
  "objects_match Py3 (Plain (PDict [])) (Plain (PDict [])) = Inr False
   \<and> objects_match Py3 (Plain PNone) (Plain PNone) = Inr True
   \<and> py_eq (PDict []) (PDict [])"
  using objects_match_falsy [of "Plain (PDict [])" "Plain (PDict [])" Py3] by simp

section \<open>Properties of the sanitizer\<close>

lemma sanitize_keeps_kind: "remove_creation_timestamps v = KNone \<longleftrightarrow> v = KNone"
  by (cases v) simp_all

lemma sanitize_idem_both:
  "remove_creation_timestamps (remove_creation_timestamps obj) = remove_creation_timestamps obj"
  "sanitize_fields (sanitize_fields attrs) = sanitize_fields attrs"
  by (induction obj and attrs rule: remove_creation_timestamps_sanitize_fields.induct)
     (simp_all add: sanitize_keeps_kind)

text \<open>
  C7: the sanitizer is idempotent. Applying \<^verbatim>\<open>__remove_creation_timestamps\<close> to an object
  that it has already sanitized leaves the object as it is: the state after two
  applications equals the state after one.
\<close>

theorem remove_creation_timestamps_idempotent:
  "remove_creation_timestamps (remove_creation_timestamps obj) = remove_creation_timestamps obj"
  by (rule sanitize_idem_both(1))

section \<open>Properties of the base model name\<close>

text \<open>What the substitution gives on some names, tokens at the front and elsewhere.\<close>

lemma version_sub_examples:
  "version_sub ''V1Service'' = ''Service''"
  "version_sub ''V1beta1Foo'' = ''Foo''"
  "version_sub ''V1alphaX'' = ''alphaX''"
  "version_sub ''V1beta1V2'' = []"
  "version_sub ''VV1x'' = ''Vx''"
  "version_sub ''V1betaV2beta3x'' = ''betax''"
  "version_sub ''V12Foo'' = ''2Foo''"
  "version_sub ''AV1B'' = ''AB''"
  by (simp_all add: match_version_def suffix_len_def startswith_def is_digit_def)





lemma startswith_split: "startswith s p \<Longrightarrow> s = p @ drop (length p) s"
  by (metis append_take_drop_id startswith_def)

lemma suffix_len_cases:
  "suffix_len r = 0 \<or>
   (\<exists>e t. is_digit e \<and> r = ''alpha'' @ e # t \<and> suffix_len r = 6) \<or>
   (\<exists>e t. is_digit e \<and> r = ''beta'' @ e # t \<and> suffix_len r = 5)"
proof -
  have a: "\<exists>e t. is_digit e \<and> r = ''alpha'' @ e # t"
    if "startswith r ''alpha''" "case drop 5 r of [] \<Rightarrow> False | d # x \<Rightarrow> is_digit d"
  proof -
    from that(2) obtain e t where d: "drop 5 r = e # t" "is_digit e" by (auto split: list.splits)
    have l: "length ''alpha'' = 5" by simp
    have "drop (length ''alpha'') r = e # t" unfolding l by (rule d(1))
    then have "r = ''alpha'' @ e # t" using startswith_split [OF that(1)] by metis
    then show ?thesis using d by blast
  qed
  have b: "\<exists>e t. is_digit e \<and> r = ''beta'' @ e # t"
    if "startswith r ''beta''" "case drop 4 r of [] \<Rightarrow> False | d # x \<Rightarrow> is_digit d"
  proof -
    from that(2) obtain e t where d: "drop 4 r = e # t" "is_digit e" by (auto split: list.splits)
    have l: "length ''beta'' = 4" by simp
    have "drop (length ''beta'') r = e # t" unfolding l by (rule d(1))
    then have "r = ''beta'' @ e # t" using startswith_split [OF that(1)] by metis
    then show ?thesis using d by blast
  qed
  show ?thesis unfolding suffix_len_def using a b by auto
qed

lemma match_version_token:
  assumes "match_version s = Some n"
  shows "n \<le> length s \<and> is_version_token (take n s)"
proof -
  from assms obtain d r where s: "s = CHR ''V'' # d # r" "is_digit d" "n = 2 + suffix_len r"
    by (auto simp: match_version_def split: list.splits if_splits)
  from suffix_len_cases [of r] show ?thesis
  proof (elim disjE exE conjE)
    assume "suffix_len r = 0"
    then show ?thesis using s by (simp add: is_version_token_def)
  next
    fix e t assume "is_digit e" "r = ''alpha'' @ e # t" "suffix_len r = 6"
    then show ?thesis using s by (simp add: is_version_token_def)
  next
    fix e t assume "is_digit e" "r = ''beta'' @ e # t" "suffix_len r = 5"
    then show ?thesis using s by (simp add: is_version_token_def)
  qed
qed

lemma token_matches: "is_version_token t \<Longrightarrow> match_version (t @ r) \<noteq> None"
  by (auto simp: is_version_token_def match_version_def split: list.splits)

lemma version_search_append: "version_search s \<Longrightarrow> version_search (p @ s)"
  by (induction p) simp_all

lemma version_search_iff:
  "version_search s \<longleftrightarrow> (\<exists>p t r. s = p @ t @ r \<and> is_version_token t)"
proof
  show "version_search s \<Longrightarrow> \<exists>p t r. s = p @ t @ r \<and> is_version_token t"
  proof (induction s)
    case Nil
    then show ?case by simp
  next
    case (Cons c s)
    show ?case
    proof (cases "match_version (c # s)")
      case (Some n)
      then have "is_version_token (take n (c # s))" using match_version_token by blast
      moreover have "c # s = [] @ take n (c # s) @ drop n (c # s)" by simp
      ultimately show ?thesis by blast
    next
      case None
      then have "version_search s" using Cons.prems by simp
      then obtain p t r where "s = p @ t @ r" "is_version_token t" using Cons.IH by blast
      then have "c # s = (c # p) @ t @ r \<and> is_version_token t" by simp
      then show ?thesis by blast
    qed
  qed
next
  assume "\<exists>p t r. s = p @ t @ r \<and> is_version_token t"
  then obtain p t r where s: "s = p @ t @ r" and t: "is_version_token t" by blast
  have "match_version (t @ r) \<noteq> None" using t by (rule token_matches)
  moreover have "t @ r \<noteq> []" using t by (auto simp: is_version_token_def)
  ultimately have "version_search (t @ r)" by (cases "t @ r") simp_all
  then show "version_search s" unfolding s by (rule version_search_append)
qed




section \<open>Properties of the lifecycle operations\<close>

lemma demo_lookup:
  "op \<in> {''read'', ''create'', ''patch'', ''delete''} \<Longrightarrow>
   lookup_method (demo_helper py m) op None = Inr m"
  by (auto simp: lookup_method_def demo_helper_def api_names_def method_name_def
        match_version_def is_digit_def)






lemma demo_parts:
  "python (demo_helper py m) = py"
  "properties (demo_helper py m) =
     [(''status'', KObj ''V1NamespaceStatus'' [(''phase'', Some ''str'', KNone)])]"
  "delete_options (demo_helper py m) = KObj ''V1DeleteOptions'' []"
  by (simp_all add: demo_helper_def)


subsection \<open>Reading an object\<close>



subsection \<open>Update\<close>

text \<open>
  C4, as stated: \<^verbatim>\<open>update_object\<close> raises \<^verbatim>\<open>NotImplementedError\<close> for every input. Its
  body is \<^verbatim>\<open>pass\<close>: on the sample cluster it returns \<^verbatim>\<open>None\<close>, makes no request and
  raises nothing.
\<close>

theorem update_object_returns_silently:
  "update_object (demo_helper Py3 (script [] (Fails conflict))) (KStr ''demo'') None
     (namespace_obj (KStr ''Active'')) \<lparr>calls = 0, clock = 0\<rparr>
   = (Inr KNone, \<lparr>calls = 0, clock = 0\<rparr>)
   \<and> fst (update_object (demo_helper Py3 (script [] (Fails conflict))) (KStr ''demo'') None
            (namespace_obj (KStr ''Active'')) \<lparr>calls = 0, clock = 0\<rparr>)
     \<noteq> Inl NotImplementedError"
  by (simp add: update_object_def)

text \<open>
  C4, amended: \<^verbatim>\<open>update_object\<close> is a stub that does nothing: for every input it
  returns \<^verbatim>\<open>None\<close> without raising, without a request and without a change of state.
\<close>

theorem update_object_does_nothing:
  "update_object h name namespace k8s_obj w = (Inr KNone, w)"
  by (simp add: update_object_def)

subsection \<open>Errors of create, patch and delete\<close>

text \<open>
  What each operation raises when its API call fails with an \<^verbatim>\<open>ApiException\<close>, for
  every input: create and delete pass the message and the status on, patch does not.
\<close>

lemma create_object_error:
  assumes "lookup_method h ''create'' namespace = Inr cm"
    and "invoke cm (unless_none namespace @ [Pos k8s_obj]) w = Fails exc"
  shows "create_object h namespace k8s_obj wait timeout w =
           (Inl (OpenShiftException (message_of exc) (Some (status exc))),
            w\<lparr>calls := Suc (calls w)\<rparr>)"
  using assms by (simp add: create_object_def call_def)

lemma delete_object_error:
  assumes "lookup_method h ''delete'' namespace = Inr dm"
    and "invoke dm ([Pos name] @ when_true namespace @
           (if ''body'' \<in> set (argnames dm) then [Kw ''body'' (delete_options h)] else [])) w
         = Fails exc"
  shows "delete_object h name namespace wait timeout w =
           (Inl (OpenShiftException (message_of exc) (Some (status exc))),
            w\<lparr>calls := Suc (calls w)\<rparr>)"
  using assms by (simp add: delete_object_def call_def)

lemma patch_object_error:
  assumes "map_of (properties h) ''status'' = Some empty_status"
    and "setattr k8s_obj ''status'' empty_status = Inr with_status"
    and "setattr2 with_status ''metadata'' ''resource_version'' KNone = Inr cleared"
    and "lookup_method h ''patch'' namespace = Inr pm"
    and "invoke pm ([Pos name] @ when_true namespace @ [Pos (remove_creation_timestamps cleared)]) w
         = Fails exc"
  shows "patch_object h name namespace k8s_obj wait timeout w =
           (Inl (OpenShiftException (rendering exc) None), w\<lparr>calls := Suc (calls w)\<rparr>)"
  using assms by (simp add: patch_object_def call_def)

text \<open>
  C5: every error surfaced by create, patch or delete carries the message and the status
  of the transport failure. \<^verbatim>\<open>create_object\<close> and \<^verbatim>\<open>delete_object\<close> do so. In
  \<^verbatim>\<open>patch_object\<close> the \<^verbatim>\<open>except\<close> clause computes \<^verbatim>\<open>msg\<close> as its siblings do and then
  raises \<^verbatim>\<open>OpenShiftException(str(exc))\<close>: on a 409 response the exception raised has no
  status, and its message is the rendering of the transport exception, not the message of
  the response body. The same response through create and delete keeps both.
\<close>

theorem patch_object_loses_status:
  "patch_object (demo_helper Py3 (script [] (Fails conflict))) (KStr ''demo'') None
     (namespace_obj (KStr ''Active'')) False 60 \<lparr>calls = 0, clock = 0\<rparr>
   = (Inl (OpenShiftException ''(409) Reason: Conflict'' None), \<lparr>calls = 1, clock = 0\<rparr>)
   \<and> create_object (demo_helper Py3 (script [] (Fails conflict))) None
     (namespace_obj (KStr ''Active'')) False 60 \<lparr>calls = 0, clock = 0\<rparr>
   = (Inl (OpenShiftException ''namespaces demo already exists'' (Some 409)),
      \<lparr>calls = 1, clock = 0\<rparr>)
   \<and> delete_object (demo_helper Py3 (script [] (Fails conflict))) (KStr ''demo'') None
     False 60 \<lparr>calls = 0, clock = 0\<rparr>
   = (Inl (OpenShiftException ''namespaces demo already exists'' (Some 409)),
      \<lparr>calls = 1, clock = 0\<rparr>)"
  by (simp add: patch_object_def create_object_def delete_object_def demo_lookup call_def
        script_def conflict_def message_of_def demo_parts namespace_obj_def setattr2_def
        when_true_def)

subsection \<open>Waiting for a deletion\<close>




subsection \<open>Waiting for readiness\<close>



end
